theory Spec2Isabelle
  imports Complex_Main "HOL-Library.AList" "HOL-Library.Multiset"
    "HOL-Library.Product_Lexorder"
begin

section \<open>Python and SQLite values\<close>

text \<open>
  The repository is Python over SQLite. Python floats and SQLite REAL columns are
  modelled by exact reals; a nullable column is an \<open>option\<close>; an exception is a value
  of \<open>py_error\<close> on the left of a sum. Timestamps are opaque numbers supplied by
  the caller (the code reads the clock with \<^verbatim>\<open>datetime.utcnow()\<close>).
\<close>

datatype py_error =
  ZeroDivisionError | TypeError | AttributeError | ValueError
  | TimeoutError | ClientError | JSONDecodeError

type_synonym timestamp = nat

text \<open>\<^verbatim>\<open>str.upper()\<close> on the ASCII range: a lower-case letter loses bit 5.\<close>

definition upper_char :: "char \<Rightarrow> char" where
  "upper_char c =
     (let n = (of_char c :: nat) in
      if 97 \<le> n \<and> n \<le> 122
      then (case c of Char b0 b1 b2 b3 b4 b5 b6 b7 \<Rightarrow> Char b0 b1 b2 b3 b4 False b6 b7)
      else c)"

definition upper :: "string \<Rightarrow> string" where
  "upper s = map upper_char s"

text \<open>\<^verbatim>\<open>x or d\<close> for a nullable number and a nullable string: \<open>None\<close>, \<open>0\<close> and
  the empty string are falsy.\<close>

definition or_real :: "real option \<Rightarrow> real \<Rightarrow> real" where
  "or_real v d = (case v of None \<Rightarrow> d | Some x \<Rightarrow> if x = 0 then d else x)"

definition or_int :: "int option \<Rightarrow> int \<Rightarrow> int" where
  "or_int v d = (case v of None \<Rightarrow> d | Some x \<Rightarrow> if x = 0 then d else x)"

definition or_str :: "string option \<Rightarrow> string \<Rightarrow> string" where
  "or_str v d = (case v of None \<Rightarrow> d | Some s \<Rightarrow> if s = [] then d else s)"

text \<open>Float division raises on a zero divisor.\<close>

definition py_div :: "real \<Rightarrow> real \<Rightarrow> py_error + real" where
  "py_div a b = (if b = 0 then Inl ZeroDivisionError else Inr (a / b))"

section \<open>The ledger: tables of \<^verbatim>\<open>database.py\<close>\<close>

record trade =
  t_id :: nat
  t_whale_address :: string
  t_market_id :: string
  t_market_question :: string
  t_side :: "string option"
  t_size :: "real option"
  t_entry_price :: "real option"
  t_entry_time :: timestamp
  t_resolved :: "bool option"
  t_outcome :: "string option"
  t_pnl :: "real option"

record whale =
  w_first_seen :: timestamp
  w_total_volume :: real
  w_win_count :: "int option"
  w_loss_count :: "int option"
  w_notes :: "string option"

record market =
  m_question :: string
  m_resolved :: "bool option"
  m_resolution :: "string option"
  m_resolved_at :: "timestamp option"

text \<open>
  \<open>trades\<close> holds the rows in rowid order; \<open>whales\<close> and \<open>markets\<close> are keyed by their
  primary key. \<open>next_trade_id\<close> is the AUTOINCREMENT counter of \<open>trades.id\<close>.
\<close>

record db =
  trades :: "trade list"
  whales :: "string \<rightharpoonup> whale"
  markets :: "string \<rightharpoonup> market"
  next_trade_id :: nat

text \<open>The schema's key constraint on \<open>trades.id\<close>, with the counter ahead of every id.\<close>

definition wf_db :: "db \<Rightarrow> bool" where
  "wf_db d \<longleftrightarrow> distinct (map t_id (trades d)) \<and> list_all (\<lambda>t. t_id t < next_trade_id d) (trades d)"

definition get_trade :: "db \<Rightarrow> nat \<Rightarrow> trade option" where
  "get_trade d tid = find (\<lambda>t. t_id t = tid) (trades d)"

definition get_whale :: "db \<Rightarrow> string \<Rightarrow> whale option" where
  "get_whale d address = whales d address"

definition get_market :: "db \<Rightarrow> string \<Rightarrow> market option" where
  "get_market d mid = markets d mid"

section \<open>Operations of \<^verbatim>\<open>database.py\<close>\<close>

text \<open>
  Every method of \<^verbatim>\<open>Database\<close> commits as it goes, so the state reached before an
  exception stays: such a method returns the new database together with the error, if
  any. A failure of SQLite itself (disk, lock) is outside the model.
\<close>

text \<open>\<^verbatim>\<open>UPDATE trades SET resolved = 1, outcome = ?, pnl = ? WHERE id = ?\<close>, the statement of
  \<^verbatim>\<open>resolve_trade\<close> and of the loop of \<^verbatim>\<open>resolve_market_trades\<close>.\<close>

definition update_trade :: "nat \<Rightarrow> string \<Rightarrow> real \<Rightarrow> trade list \<Rightarrow> trade list" where
  "update_trade tid outcome pnl ts =
     map (\<lambda>t. if t_id t = tid
               then t\<lparr>t_resolved := Some True, t_outcome := Some outcome, t_pnl := Some pnl\<rparr>
               else t) ts"

text \<open>\<^verbatim>\<open>add_trade\<close>: a plain INSERT; \<open>resolved\<close> takes its default FALSE.\<close>

definition add_trade :: "db \<Rightarrow> string \<Rightarrow> string \<Rightarrow> string \<Rightarrow> string \<Rightarrow> real \<Rightarrow> real \<Rightarrow> timestamp \<Rightarrow> db \<times> int" where
  "add_trade d whale_address market_id market_question side sz entry_price now =
     (d\<lparr>trades := trades d @
           [\<lparr>t_id = next_trade_id d, t_whale_address = whale_address, t_market_id = market_id,
             t_market_question = market_question, t_side = Some side, t_size = Some sz,
             t_entry_price = Some entry_price, t_entry_time = now, t_resolved = Some False,
             t_outcome = None, t_pnl = None\<rparr>],
         next_trade_id := next_trade_id d + 1\<rparr>,
      int (next_trade_id d))"

definition trade_exists :: "db \<Rightarrow> string \<Rightarrow> string \<Rightarrow> string \<Rightarrow> bool" where
  "trade_exists d whale_address market_id side =
     list_ex (\<lambda>t. t_whale_address t = whale_address \<and> t_market_id t = market_id
                  \<and> t_side t = Some side) (trades d)"

definition resolve_trade :: "db \<Rightarrow> nat \<Rightarrow> string \<Rightarrow> real \<Rightarrow> db" where
  "resolve_trade d tid outcome pnl = d\<lparr>trades := update_trade tid outcome pnl (trades d)\<rparr>"

definition update_whale_stats :: "db \<Rightarrow> string \<Rightarrow> int option \<Rightarrow> int option \<Rightarrow> db" where
  "update_whale_stats d address win_count loss_count =
     (case whales d address of
        None \<Rightarrow> d
      | Some row \<Rightarrow>
          d\<lparr>whales := (whales d)(address \<mapsto> row\<lparr>w_win_count := win_count, w_loss_count := loss_count\<rparr>)\<rparr>)"

text \<open>Arithmetic on a column that may hold NULL raises \<^verbatim>\<open>TypeError\<close>.\<close>

definition the_num :: "'a option \<Rightarrow> py_error + 'a" where
  "the_num v = (case v of None \<Rightarrow> Inl TypeError | Some x \<Rightarrow> Inr x)"

text \<open>The PnL of \<^verbatim>\<open>resolve_trades_by_market\<close>: \<open>size * (1 - entry_price)\<close> or
  \<open>-size * entry_price\<close>.\<close>

definition market_pnl :: "bool \<Rightarrow> real option \<Rightarrow> real option \<Rightarrow> py_error + real" where
  "market_pnl won sz entry_price =
     (case the_num sz of
        Inl e \<Rightarrow> Inl e
      | Inr s \<Rightarrow> (case the_num entry_price of
                    Inl e \<Rightarrow> Inl e
                  | Inr p \<Rightarrow> Inr (if won then s * (1 - p) else - s * p)))"

text \<open>The whale counters after one trade of \<^verbatim>\<open>resolve_trades_by_market\<close>.\<close>

definition bump_whale :: "db \<Rightarrow> string \<Rightarrow> bool \<Rightarrow> db \<times> py_error option" where
  "bump_whale d address won =
     (case get_whale d address of
        None \<Rightarrow> (d, None)
      | Some w \<Rightarrow>
          if won
          then (case the_num (w_win_count w) of
                  Inl e \<Rightarrow> (d, Some e)
                | Inr n \<Rightarrow> (update_whale_stats d address (Some (n + 1)) (w_loss_count w), None))
          else (case the_num (w_loss_count w) of
                  Inl e \<Rightarrow> (d, Some e)
                | Inr n \<Rightarrow> (update_whale_stats d address (w_win_count w) (Some (n + 1)), None)))"

definition by_market_step :: "string \<Rightarrow> trade \<Rightarrow> db \<Rightarrow> db \<times> py_error option" where
  "by_market_step resolution t d =
     (case t_side t of
        None \<Rightarrow> (d, Some AttributeError)
      | Some s \<Rightarrow>
          (let side = upper s;
               won = ((side = ''YES'' \<and> resolution = ''YES'') \<or> (side = ''NO'' \<and> resolution = ''NO''));
               outcome = (if won then ''WIN'' else ''LOSS'')
           in case market_pnl won (t_size t) (t_entry_price t) of
                Inl e \<Rightarrow> (d, Some e)
              | Inr pnl \<Rightarrow> bump_whale (resolve_trade d (t_id t) outcome pnl) (t_whale_address t) won))"

fun by_market_loop :: "string \<Rightarrow> trade list \<Rightarrow> db \<Rightarrow> db \<times> py_error option" where
  "by_market_loop resolution [] d = (d, None)"
| "by_market_loop resolution (t # ts) d =
     (case by_market_step resolution t d of
        (d', Some e) \<Rightarrow> (d', Some e)
      | (d', None) \<Rightarrow> by_market_loop resolution ts d')"

definition resolve_trades_by_market :: "db \<Rightarrow> string \<Rightarrow> string \<Rightarrow> db \<times> (py_error + nat)" where
  "resolve_trades_by_market d market_id resolution =
     (let ts = filter (\<lambda>t. t_market_id t = market_id \<and> t_resolved t = Some False) (trades d)
      in case by_market_loop resolution ts d of
           (d', Some e) \<Rightarrow> (d', Inl e)
         | (d', None) \<Rightarrow> (d', Inr (length ts)))"

text \<open>\<^verbatim>\<open>add_market\<close>: INSERT OR IGNORE.\<close>

definition add_market :: "db \<Rightarrow> string \<Rightarrow> string \<Rightarrow> db \<times> bool" where
  "add_market d market_id question =
     (case markets d market_id of
        Some _ \<Rightarrow> (d, False)
      | None \<Rightarrow>
          (d\<lparr>markets := (markets d)(market_id \<mapsto>
                \<lparr>m_question = question, m_resolved = Some False, m_resolution = None,
                 m_resolved_at = None\<rparr>)\<rparr>, True))"

text \<open>\<^verbatim>\<open>UPDATE markets SET resolved = 1, resolution = ?, resolved_at = ? WHERE market_id = ?\<close>,
  the statement \<^verbatim>\<open>Database.resolve_market\<close> and \<^verbatim>\<open>resolve_market_trades\<close> share.\<close>

definition mark_market_resolved :: "(string \<rightharpoonup> market) \<Rightarrow> string \<Rightarrow> string \<Rightarrow> timestamp \<Rightarrow> (string \<rightharpoonup> market)" where
  "mark_market_resolved ms mid resolution now =
     (case ms mid of
        None \<Rightarrow> ms
      | Some row \<Rightarrow> ms(mid \<mapsto> row\<lparr>m_resolved := Some True, m_resolution := Some resolution,
                                   m_resolved_at := Some now\<rparr>))"

definition resolve_market :: "db \<Rightarrow> string \<Rightarrow> string \<Rightarrow> timestamp \<Rightarrow> db \<times> py_error option" where
  "resolve_market d market_id resolution now =
     (case resolve_trades_by_market
             (d\<lparr>markets := mark_market_resolved (markets d) market_id resolution now\<rparr>)
             market_id resolution of
        (d', Inl e) \<Rightarrow> (d', Some e)
      | (d', Inr resolved_count) \<Rightarrow> (d', None))"

section \<open>\<^verbatim>\<open>WhaleTracker.check_whale_positions\<close>\<close>

text \<open>A position as \<^verbatim>\<open>get_active_positions_for_wallet\<close> returns it. The Telegram alert
  after a new trade does not touch the ledger and is left out.\<close>

record position =
  p_market_id :: string
  p_market_question :: string
  p_side :: string
  p_size :: real
  p_entry_price :: real

definition record_position :: "string \<Rightarrow> timestamp \<Rightarrow> position \<Rightarrow> db \<Rightarrow> db" where
  "record_position whale_address now pos d =
     (if p_market_id pos = [] then d
      else if trade_exists d whale_address (p_market_id pos) (p_side pos) then d
      else fst (add_trade (fst (add_market d (p_market_id pos) (p_market_question pos)))
                  whale_address (p_market_id pos) (p_market_question pos) (p_side pos)
                  (p_size pos) (p_entry_price pos) now))"

definition check_whale_positions :: "db \<Rightarrow> string \<Rightarrow> position list \<Rightarrow> timestamp \<Rightarrow> db" where
  "check_whale_positions d whale_address positions now =
     foldl (\<lambda>d' pos. record_position whale_address now pos d') d positions"

section \<open>\<^verbatim>\<open>ResolutionChecker.resolve_market_trades\<close>\<close>

record whale_stats =
  ws_wins :: nat
  ws_losses :: nat
  ws_pnl :: real

record results =
  r_trades_resolved :: nat
  r_wins :: nat
  r_losses :: nat
  r_total_pnl :: real
  r_whale_updates :: "(string \<times> whale_stats) list"

definition empty_results :: results where
  "empty_results = \<lparr>r_trades_resolved = 0, r_wins = 0, r_losses = 0, r_total_pnl = 0,
     r_whale_updates = []\<rparr>"

text \<open>The SELECT of the unresolved trades of one market.\<close>

definition unresolved_trades_of :: "trade list \<Rightarrow> string \<Rightarrow> trade list" where
  "unresolved_trades_of ts mid =
     filter (\<lambda>t. t_market_id t = mid \<and> (t_resolved t = Some False \<or> t_resolved t = None)) ts"

text \<open>The PnL branch of the loop body: the division is guarded by \<open>entry_price > 0\<close>.\<close>

definition trade_pnl :: "bool \<Rightarrow> real \<Rightarrow> real \<Rightarrow> py_error + real" where
  "trade_pnl won sz entry_price =
     (if won
      then (case (if entry_price > 0 then py_div sz entry_price else Inr 0) of
              Inl e \<Rightarrow> Inl e
            | Inr shares \<Rightarrow> Inr (shares - sz))
      else Inr (- sz))"

definition zero_stats :: whale_stats where
  "zero_stats = \<lparr>ws_wins = 0, ws_losses = 0, ws_pnl = 0\<rparr>"

definition track_whale :: "string \<Rightarrow> bool \<Rightarrow> real \<Rightarrow> (string \<times> whale_stats) list \<Rightarrow> (string \<times> whale_stats) list" where
  "track_whale address won pnl ups =
     (let s = (case map_of ups address of None \<Rightarrow> zero_stats | Some s \<Rightarrow> s);
          s' = (if won then s\<lparr>ws_wins := ws_wins s + 1\<rparr> else s\<lparr>ws_losses := ws_losses s + 1\<rparr>)
      in AList.update address (s'\<lparr>ws_pnl := ws_pnl s' + pnl\<rparr>) ups)"

text \<open>One iteration of \<^verbatim>\<open>for trade in trades\<close>, on the table and the running results.\<close>

definition resolve_step :: "string \<Rightarrow> trade \<Rightarrow> trade list \<times> results \<Rightarrow> py_error + (trade list \<times> results)" where
  "resolve_step winner t st =
     (let side = upper (or_str (t_side t) []);
          sz = or_real (t_size t) 0;
          entry_price = or_real (t_entry_price t) 0.5;
          won = (side = winner);
          outcome = (if won then ''WIN'' else ''LOSS'')
      in case trade_pnl won sz entry_price of
           Inl e \<Rightarrow> Inl e
         | Inr pnl \<Rightarrow>
             Inr (update_trade (t_id t) outcome pnl (fst st),
                  (snd st)\<lparr>r_trades_resolved := r_trades_resolved (snd st) + 1,
                           r_total_pnl := r_total_pnl (snd st) + pnl,
                           r_wins := (if won then r_wins (snd st) + 1 else r_wins (snd st)),
                           r_losses := (if won then r_losses (snd st) else r_losses (snd st) + 1),
                           r_whale_updates := track_whale (t_whale_address t) won pnl
                                                (r_whale_updates (snd st))\<rparr>))"

fun resolve_loop :: "string \<Rightarrow> trade list \<Rightarrow> trade list \<times> results \<Rightarrow> py_error + (trade list \<times> results)" where
  "resolve_loop winner [] st = Inr st"
| "resolve_loop winner (t # ts) st =
     (case resolve_step winner t st of Inl e \<Rightarrow> Inl e | Inr st' \<Rightarrow> resolve_loop winner ts st')"

text \<open>The flush of the per-whale counters: a whale without a row is skipped.\<close>

definition flush_whale :: "(string \<rightharpoonup> whale) \<Rightarrow> string \<times> whale_stats \<Rightarrow> (string \<rightharpoonup> whale)" where
  "flush_whale ws up =
     (case ws (fst up) of
        None \<Rightarrow> ws
      | Some row \<Rightarrow>
          ws(fst up \<mapsto> row\<lparr>w_win_count := Some (or_int (w_win_count row) 0 + int (ws_wins (snd up))),
                            w_loss_count := Some (or_int (w_loss_count row) 0 + int (ws_losses (snd up)))\<rparr>))"

text \<open>
  The whole method. The single commit is the last statement, so an exception in the
  loop leaves the database as it was: the error carries no new state.
\<close>

definition resolve_market_trades :: "db \<Rightarrow> string \<Rightarrow> string \<Rightarrow> timestamp \<Rightarrow> py_error + (db \<times> results)" where
  "resolve_market_trades d mid winner now =
     (case resolve_loop winner (unresolved_trades_of (trades d) mid) (trades d, empty_results) of
        Inl e \<Rightarrow> Inl e
      | Inr st \<Rightarrow>
          Inr (d\<lparr>trades := fst st,
                 whales := foldl flush_whale (whales d) (r_whale_updates (snd st)),
                 markets := mark_market_resolved (markets d) mid winner now\<rparr>,
               snd st))"

text \<open>What one trade row becomes when the market settles with \<open>winner\<close>.\<close>

definition settled_row :: "string \<Rightarrow> trade \<Rightarrow> trade" where
  "settled_row winner t =
     (let sz = or_real (t_size t) 0; entry_price = or_real (t_entry_price t) 0.5 in
      if upper (or_str (t_side t) []) = winner
      then t\<lparr>t_resolved := Some True, t_outcome := Some ''WIN'',
             t_pnl := Some ((if entry_price > 0 then sz / entry_price else 0) - sz)\<rparr>
      else t\<lparr>t_resolved := Some True, t_outcome := Some ''LOSS'', t_pnl := Some (- sz)\<rparr>)"

text \<open>The three columns of \<open>settled_row winner t\<close>, written onto a row \<open>r\<close>.\<close>

definition settle_cols :: "string \<Rightarrow> trade \<Rightarrow> trade \<Rightarrow> trade" where
  "settle_cols winner t r = r\<lparr>t_resolved := t_resolved (settled_row winner t),
                           t_outcome := t_outcome (settled_row winner t),
                           t_pnl := t_pnl (settled_row winner t)\<rparr>"

section \<open>Example ledgers\<close>

definition trade_yes :: trade where
  "trade_yes = \<lparr>t_id = 1, t_whale_address = ''0xw1'', t_market_id = ''0xabc'',
     t_market_question = ''Q'', t_side = Some ''YES'', t_size = Some 100,
     t_entry_price = Some 0.5, t_entry_time = 0, t_resolved = Some False,
     t_outcome = None, t_pnl = None\<rparr>"

definition trade_no :: trade where
  "trade_no = \<lparr>t_id = 2, t_whale_address = ''0xw2'', t_market_id = ''0xabc'',
     t_market_question = ''Q'', t_side = Some ''NO'', t_size = Some 100,
     t_entry_price = Some 0.5, t_entry_time = 0, t_resolved = Some False,
     t_outcome = None, t_pnl = None\<rparr>"

definition fresh_whale :: whale where
  "fresh_whale = \<lparr>w_first_seen = 0, w_total_volume = 60000, w_win_count = Some 0,
     w_loss_count = Some 0, w_notes = None\<rparr>"

definition open_market :: market where
  "open_market = \<lparr>m_question = ''Q'', m_resolved = Some False, m_resolution = None,
     m_resolved_at = None\<rparr>"

definition ledger_two :: db where
  "ledger_two = \<lparr>trades = [trade_yes, trade_no],
     whales = [''0xw1'' \<mapsto> fresh_whale, ''0xw2'' \<mapsto> fresh_whale],
     markets = [''0xabc'' \<mapsto> open_market], next_trade_id = 3\<rparr>"

definition ledger_odd :: db where
  "ledger_odd = \<lparr>trades = [trade_yes\<lparr>t_entry_price := Some 0\<rparr>, trade_no\<lparr>t_side := Some ''yes''\<rparr>],
     whales = [''0xw1'' \<mapsto> fresh_whale, ''0xw2'' \<mapsto> fresh_whale],
     markets = [''0xabc'' \<mapsto> open_market], next_trade_id = 3\<rparr>"


definition trade_free :: trade where
  "trade_free = \<lparr>t_id = 1, t_whale_address = ''0xw1'', t_market_id = ''0xabc'',
     t_market_question = ''Q'', t_side = Some ''YES'', t_size = Some 250,
     t_entry_price = Some 0, t_entry_time = 0, t_resolved = Some False,
     t_outcome = None, t_pnl = None\<rparr>"

definition ledger_zero :: db where
  "ledger_zero = \<lparr>trades = [trade_free], whales = [''0xw1'' \<mapsto> fresh_whale],
     markets = [''0xabc'' \<mapsto> open_market], next_trade_id = 2\<rparr>"

definition settled_market :: market where
  "settled_market = \<lparr>m_question = ''Q'', m_resolved = Some True, m_resolution = Some ''YES'',
     m_resolved_at = Some 5\<rparr>"

definition ledger_settled :: db where
  "ledger_settled = \<lparr>trades = [], whales = Map.empty,
     markets = [''0xabc'' \<mapsto> settled_market], next_trade_id = 1\<rparr>"

definition trade_won :: trade where
  "trade_won = trade_yes\<lparr>t_resolved := Some True, t_outcome := Some ''WIN'', t_pnl := Some 100\<rparr>"

definition ledger_won :: db where
  "ledger_won = \<lparr>trades = [trade_won], whales = [''0xw1'' \<mapsto> fresh_whale\<lparr>w_win_count := Some 1\<rparr>],
     markets = [''0xabc'' \<mapsto> settled_market], next_trade_id = 2\<rparr>"


definition trade_key :: "trade \<Rightarrow> string \<times> string \<times> string option" where
  "trade_key t = (t_whale_address t, t_market_id t, t_side t)"

definition position_yes :: position where
  "position_yes = \<lparr>p_market_id = ''0xabc'', p_market_question = ''Q'', p_side = ''YES'',
     p_size = 7000, p_entry_price = 0.4\<rparr>"

definition position_new :: position where
  "position_new = \<lparr>p_market_id = ''0xdef'', p_market_question = ''R'', p_side = ''NO'',
     p_size = 9000, p_entry_price = 0.3\<rparr>"


section \<open>\<^verbatim>\<open>ResolutionChecker.check_market_resolution\<close>\<close>

text \<open>
  The parsed response body is a JSON value; an object is the list of its members (the
  parser has already kept one value per key). The operations the method applies to it fail
  as Python's do: \<^verbatim>\<open>.get\<close> exists on a dict only, \<^verbatim>\<open>.upper\<close> on a string only,
  a number is not iterable.
\<close>

datatype json =
  JNull | JBool bool | JNum real | JStr string | JArr "json list" | JObj "(string \<times> json) list"

text \<open>Python truth value of a parsed JSON value.\<close>

fun truthy :: "json \<Rightarrow> bool" where
  "truthy JNull = False"
| "truthy (JBool b) = b"
| "truthy (JNum x) = (x \<noteq> 0)"
| "truthy (JStr s) = (s \<noteq> [])"
| "truthy (JArr xs) = (xs \<noteq> [])"
| "truthy (JObj kvs) = (kvs \<noteq> [])"

fun dict_get :: "json \<Rightarrow> string \<Rightarrow> json \<Rightarrow> py_error + json" where
  "dict_get (JObj kvs) k dflt = Inr (case map_of kvs k of None \<Rightarrow> dflt | Some v \<Rightarrow> v)"
| "dict_get _ k dflt = Inl AttributeError"

text \<open>\<^verbatim>\<open>for token in tokens\<close>: a dict yields its keys, a string its characters.\<close>

fun py_iter :: "json \<Rightarrow> py_error + json list" where
  "py_iter (JArr xs) = Inr xs"
| "py_iter (JObj kvs) = Inr (map (\<lambda>kv. JStr (fst kv)) kvs)"
| "py_iter (JStr s) = Inr (map (\<lambda>c. JStr [c]) s)"
| "py_iter _ = Inl TypeError"

fun str_upper :: "json \<Rightarrow> py_error + string" where
  "str_upper (JStr s) = Inr (upper s)"
| "str_upper _ = Inl AttributeError"

text \<open>\<^verbatim>\<open>float(x)\<close>. The reading of a numeric string is a parameter \<open>parse\<close>
  (\<open>None\<close> when Python raises \<^verbatim>\<open>ValueError\<close>).\<close>

fun py_float :: "(string \<Rightarrow> real option) \<Rightarrow> json \<Rightarrow> py_error + real" where
  "py_float parse (JNum x) = Inr x"
| "py_float parse (JBool b) = Inr (if b then 1 else 0)"
| "py_float parse (JStr s) = (case parse s of None \<Rightarrow> Inl ValueError | Some x \<Rightarrow> Inr x)"
| "py_float parse _ = Inl TypeError"

text \<open>Sequencing of steps that may raise.\<close>

definition and_then :: "py_error + 'a \<Rightarrow> ('a \<Rightarrow> py_error + 'b) \<Rightarrow> py_error + 'b" where
  "and_then m f = (case m of Inl e \<Rightarrow> Inl e | Inr x \<Rightarrow> f x)"

text \<open>The first loop: the first token with a truthy \<open>winner\<close> whose outcome is YES or NO.\<close>

fun winner_by_flag :: "json list \<Rightarrow> py_error + string option" where
  "winner_by_flag [] = Inr None"
| "winner_by_flag (token # rest) =
     and_then (dict_get token ''winner'' (JBool False)) (\<lambda>flag.
       if truthy flag
       then and_then (dict_get token ''outcome'' (JStr [])) (\<lambda>oc.
            and_then (str_upper oc) (\<lambda>outcome.
              if outcome = ''YES'' \<or> outcome = ''NO'' then Inr (Some outcome)
              else winner_by_flag rest))
       else winner_by_flag rest)"

text \<open>The second loop: the first token with \<open>price > 0.99\<close> whose outcome is YES or NO. The
  price is converted before the outcome is read, token by token.\<close>

fun winner_by_price :: "(string \<Rightarrow> real option) \<Rightarrow> json list \<Rightarrow> py_error + string option" where
  "winner_by_price parse [] = Inr None"
| "winner_by_price parse (token # rest) =
     and_then (dict_get token ''price'' (JNum 0)) (\<lambda>pr.
     and_then (py_float parse pr) (\<lambda>price.
     and_then (dict_get token ''outcome'' (JStr [])) (\<lambda>oc.
     and_then (str_upper oc) (\<lambda>outcome.
       if price > 0.99 \<and> (outcome = ''YES'' \<or> outcome = ''NO'') then Inr (Some outcome)
       else winner_by_price parse rest))))"

text \<open>What the GET gives: an exception (timeout, connection error), or a status with the
  body, \<open>None\<close> when \<^verbatim>\<open>resp.json()\<close> raises.\<close>

datatype http_result = Raised py_error | Response int "json option"

record resolution =
  rs_market_id :: string
  rs_question :: json
  rs_winner :: string
  rs_resolved_at :: timestamp

text \<open>The body of the \<^verbatim>\<open>try\<close> block.\<close>

definition check_body :: "(string \<Rightarrow> real option) \<Rightarrow> string \<Rightarrow> http_result \<Rightarrow> timestamp \<Rightarrow> py_error + resolution option" where
  "check_body parse market_id resp now =
     (case resp of
        Raised e \<Rightarrow> Inl e
      | Response status body \<Rightarrow>
          if status = 404 then Inr None
          else if status \<noteq> 200 then Inr None
          else (case body of
                  None \<Rightarrow> Inl JSONDecodeError
                | Some data \<Rightarrow>
                    if \<not> truthy data then Inr None
                    else and_then (dict_get data ''closed'' (JBool False)) (\<lambda>closed.
                      if \<not> truthy closed then Inr None
                      else and_then (dict_get data ''tokens'' (JArr [])) (\<lambda>tokens.
                           and_then (and_then (py_iter tokens) winner_by_flag) (\<lambda>flagged.
                           and_then (if flagged = None \<and> truthy tokens
                                     then and_then (py_iter tokens) (winner_by_price parse)
                                     else Inr flagged) (\<lambda>winner.
                             case winner of
                               None \<Rightarrow> Inr None
                             | Some w \<Rightarrow>
                                 and_then (dict_get data ''question'' (JStr ''Unknown'')) (\<lambda>q.
                                   Inr (Some \<lparr>rs_market_id = market_id, rs_question = q,
                                              rs_winner = w, rs_resolved_at = now\<rparr>))))))))"

text \<open>The method: both \<^verbatim>\<open>except\<close> clauses log and return \<open>None\<close>. The session set-up
  and the URL formatting before the \<^verbatim>\<open>try\<close> do not fail on a string id.\<close>

definition check_market_resolution :: "(string \<Rightarrow> real option) \<Rightarrow> string \<Rightarrow> http_result \<Rightarrow> timestamp \<Rightarrow> resolution option" where
  "check_market_resolution parse market_id resp now =
     (case check_body parse market_id resp now of Inl e \<Rightarrow> None | Inr r \<Rightarrow> r)"

text \<open>A well-formed feed response: the market object of the CLOB API with its outcome
  tokens, as the method reads it.\<close>

record token =
  tk_outcome :: string
  tk_price :: real
  tk_winner :: bool

definition token_json :: "token \<Rightarrow> json" where
  "token_json t = JObj [(''token_id'', JStr ''1''), (''outcome'', JStr (tk_outcome t)),
     (''price'', JNum (tk_price t)), (''winner'', JBool (tk_winner t))]"

definition market_json :: "bool \<Rightarrow> string \<Rightarrow> token list \<Rightarrow> json" where
  "market_json is_closed question toks =
     JObj [(''question'', JStr question), (''closed'', JBool is_closed),
           (''tokens'', JArr (map token_json toks))]"

definition yes_no :: "token \<Rightarrow> bool" where
  "yes_no t \<longleftrightarrow> upper (tk_outcome t) = ''YES'' \<or> upper (tk_outcome t) = ''NO''"

definition token_yes_99 :: token where
  "token_yes_99 = \<lparr>tk_outcome = ''Yes'', tk_price = 0.99, tk_winner = False\<rparr>"

definition token_no_01 :: token where
  "token_no_01 = \<lparr>tk_outcome = ''No'', tk_price = 0.01, tk_winner = False\<rparr>"

definition token_yes_priced :: token where
  "token_yes_priced = \<lparr>tk_outcome = ''Yes'', tk_price = 1, tk_winner = False\<rparr>"

definition token_no_flagged :: token where
  "token_no_flagged = \<lparr>tk_outcome = ''No'', tk_price = 0, tk_winner = True\<rparr>"

definition no_parse :: "string \<Rightarrow> real option" where
  "no_parse s = None"

definition broken_market :: json where
  "broken_market = JObj [(''closed'', JBool True), (''tokens'', JNum 5)]"


section \<open>\<^verbatim>\<open>TradeSignalsGenerator\<close>: individual signals\<close>































section \<open>\<^verbatim>\<open>TradeSignalsGenerator.detect_consensus_signals\<close>\<close>

















section \<open>\<^verbatim>\<open>PerformanceAnalyzer\<close>\<close>


















section \<open>Notions used to state the counter properties\<close>

text \<open>The test \<^verbatim>\<open>won = (side == winning_side)\<close> of the loop body, on a trade row.\<close>

definition trade_won_by :: "string \<Rightarrow> trade \<Rightarrow> bool" where
  "trade_won_by winner t \<longleftrightarrow> upper (or_str (t_side t) []) = winner"

text \<open>The wins and losses that \<^verbatim>\<open>whale_updates\<close> holds for an address, zero when it has no entry.\<close>

definition tally :: "(string \<times> whale_stats) list \<Rightarrow> string \<Rightarrow> nat \<times> nat" where
  "tally ups a = (case map_of ups a of None \<Rightarrow> (0, 0) | Some st \<Rightarrow> (ws_wins st, ws_losses st))"

section \<open>Properties of the resolution loop\<close>

lemma trade_pnl_total:
  "trade_pnl won sz ep = Inr (if won then (if ep > 0 then sz / ep else 0) - sz else - sz)"
  by (simp add: trade_pnl_def py_div_def)

lemma t_id_settled_row [simp]: "t_id (settled_row winner t) = t_id t"
  by (simp add: settled_row_def Let_def)

lemma resolve_step_table:
  "\<exists>res'. resolve_step winner t (tbl, res) =
     Inr (map (\<lambda>r. if t_id r = t_id t
                    then r\<lparr>t_resolved := t_resolved (settled_row winner t),
                           t_outcome := t_outcome (settled_row winner t),
                           t_pnl := t_pnl (settled_row winner t)\<rparr>
                    else r) tbl, res')"
  by (simp add: resolve_step_def trade_pnl_total update_trade_def settled_row_def Let_def)

lemma settle_cols_self: "settle_cols winner t t = settled_row winner t"
  by (simp add: settle_cols_def settled_row_def Let_def)

lemma settle_cols_settled: "settle_cols winner t (settled_row winner t) = settled_row winner t"
  by (simp add: settle_cols_def settled_row_def Let_def)

lemma resolve_loop_table:
  assumes "distinct (map t_id tbl)" and "set ts \<subseteq> set tbl"
  shows "\<exists>res'. resolve_loop winner ts (map (\<lambda>r. if r \<in> A then settled_row winner r else r) tbl, res) =
     Inr (map (\<lambda>r. if r \<in> A \<union> set ts then settled_row winner r else r) tbl, res')"
  using assms(2)
proof (induction ts arbitrary: A res)
  case Nil
  then show ?case by simp
next
  case (Cons t ts)
  have t_in: "t \<in> set tbl" using Cons.prems by simp
  have same: "\<And>r. r \<in> set tbl \<Longrightarrow> t_id r = t_id t \<Longrightarrow> r = t"
    using assms(1) t_in by (meson distinct_map inj_onD)
  have step: "map (\<lambda>r. if t_id r = t_id t then settle_cols winner t r else r)
                (map (\<lambda>r. if r \<in> A then settled_row winner r else r) tbl)
            = map (\<lambda>r. if r \<in> insert t A then settled_row winner r else r) tbl"
  proof -
    have "(if t_id (if r \<in> A then settled_row winner r else r) = t_id t
           then settle_cols winner t (if r \<in> A then settled_row winner r else r)
           else (if r \<in> A then settled_row winner r else r))
        = (if r \<in> insert t A then settled_row winner r else r)" if "r \<in> set tbl" for r
    proof (cases "t_id r = t_id t")
      case True
      then have "r = t" using same that by blast
      then show ?thesis by (simp add: settle_cols_self settle_cols_settled)
    next
      case False
      then have "r \<noteq> t" by auto
      with False show ?thesis by simp
    qed
    then show ?thesis by (simp add: o_def)
  qed
  obtain res1 where r1: "resolve_step winner t (map (\<lambda>r. if r \<in> A then settled_row winner r else r) tbl, res)
      = Inr (map (\<lambda>r. if r \<in> insert t A then settled_row winner r else r) tbl, res1)"
    using resolve_step_table[of winner t "map (\<lambda>r. if r \<in> A then settled_row winner r else r) tbl" res]
    unfolding settle_cols_def[symmetric] step by blast
  have "set ts \<subseteq> set tbl" using Cons.prems by simp
  from Cons.IH[OF this, of "insert t A" res1] r1
  show ?case by simp
qed

lemma resolve_market_trades_rows:
  assumes "distinct (map t_id (trades d))"
  shows "\<exists>d' res. resolve_market_trades d mid winner now = Inr (d', res) \<and>
     trades d' = map (\<lambda>r. if t_market_id r = mid \<and> t_resolved r \<noteq> Some True
                            then settled_row winner r else r) (trades d)"
proof -
  let ?ts = "unresolved_trades_of (trades d) mid"
  have sub: "set ?ts \<subseteq> set (trades d)" by (auto simp: unresolved_trades_of_def)
  from resolve_loop_table[OF assms sub, of winner "{}" empty_results]
  obtain res' where L: "resolve_loop winner ?ts (trades d, empty_results) =
     Inr (map (\<lambda>r. if r \<in> set ?ts then settled_row winner r else r) (trades d), res')"
    by auto
  have "map (\<lambda>r. if r \<in> set ?ts then settled_row winner r else r) (trades d)
      = map (\<lambda>r. if t_market_id r = mid \<and> t_resolved r \<noteq> Some True
                            then settled_row winner r else r) (trades d)"
    by (rule map_cong) (auto simp: unresolved_trades_of_def)
  with L show ?thesis by (simp add: resolve_market_trades_def)
qed

lemma find_map_id:
  assumes "distinct (map t_id ts)" and "t \<in> set ts" and "\<And>r. t_id (f r) = t_id r"
  shows "find (\<lambda>r. t_id r = t_id t) (map f ts) = Some (f t)"
  using assms(1,2)
proof (induction ts)
  case Nil then show ?case by simp
next
  case (Cons a ts)
  then show ?case using assms(3) by (auto simp: image_iff)
qed


lemma resolve_market_trades_total:
  "\<exists>r. resolve_market_trades d mid winner now = Inr r"
proof -
  have "\<exists>st'. resolve_loop winner ts st = Inr st'" for ts st
  proof (induction ts arbitrary: st)
    case Nil show ?case by simp
  next
    case (Cons t ts)
    obtain res' tbl' where "resolve_step winner t st = Inr (tbl', res')"
      using resolve_step_table[of winner t "fst st" "snd st"] by auto
    with Cons.IH[of "(tbl', res')"] show ?case by simp
  qed
  then obtain st' where "resolve_loop winner (unresolved_trades_of (trades d) mid) (trades d, empty_results) = Inr st'"
    by blast
  then show ?thesis by (simp add: resolve_market_trades_def)
qed

lemma resolve_market_trades_row:
  assumes "distinct (map t_id (trades d))" and "t \<in> set (trades d)"
    and "t_market_id t = mid" and "t_resolved t \<noteq> Some True"
  shows "\<exists>d' res. resolve_market_trades d mid winner now = Inr (d', res) \<and>
           get_trade d' (t_id t) = Some (settled_row winner t)"
proof -
  obtain d' res where R: "resolve_market_trades d mid winner now = Inr (d', res)"
    and T: "trades d' = map (\<lambda>r. if t_market_id r = mid \<and> t_resolved r \<noteq> Some True
                            then settled_row winner r else r) (trades d)"
    using resolve_market_trades_rows[OF assms(1)] by blast
  have "get_trade d' (t_id t) = Some (if t_market_id t = mid \<and> t_resolved t \<noteq> Some True
                            then settled_row winner t else t)"
    unfolding get_trade_def T
    by (rule find_map_id[OF assms(1,2)]) simp
  with R assms(3,4) show ?thesis by simp
qed

text \<open>
  Claim C1, as the code has it. For every trade of the market that is not yet resolved,
  \<^verbatim>\<open>resolve_market_trades\<close> succeeds and rewrites exactly three columns of the row:
  when the upper-cased side (NULL read as the empty string) equals the winner and the
  stored entry price is positive, the row becomes resolved, WIN, with
  \<open>pnl = size / entry_price - size\<close>; when the upper-cased side differs from the winner it
  becomes resolved, LOSS, with \<open>pnl = - size\<close> (a NULL size reads as 0).
\<close>

theorem resolve_market_trades_outcome_pnl:
  assumes "distinct (map t_id (trades d))" and "t \<in> set (trades d)"
    and "t_market_id t = mid" and "t_resolved t \<noteq> Some True"
  shows "\<exists>d' res. resolve_market_trades d mid winner now = Inr (d', res) \<and>
     (upper (or_str (t_side t) []) = winner \<longrightarrow>
        (\<forall>ep. t_entry_price t = Some ep \<and> ep > 0 \<longrightarrow>
           get_trade d' (t_id t) =
             Some (t\<lparr>t_resolved := Some True, t_outcome := Some ''WIN'',
                     t_pnl := Some (or_real (t_size t) 0 / ep - or_real (t_size t) 0)\<rparr>))) \<and>
     (upper (or_str (t_side t) []) \<noteq> winner \<longrightarrow>
        get_trade d' (t_id t) =
          Some (t\<lparr>t_resolved := Some True, t_outcome := Some ''LOSS'',
                  t_pnl := Some (- or_real (t_size t) 0)\<rparr>))"
proof -
  obtain d' res where R: "resolve_market_trades d mid winner now = Inr (d', res)"
    and G: "get_trade d' (t_id t) = Some (settled_row winner t)"
    using resolve_market_trades_row[OF assms] by blast
  show ?thesis
    using R G by (auto simp: settled_row_def Let_def or_real_def)
qed

text \<open>
  Claim C10, as the code has it. \<^verbatim>\<open>resolve_market_trades\<close> never raises, so the division
  is never evaluated on a zero divisor: a stored entry price of 0 (or NULL) is replaced by
  0.5 before the division. The winning trade is still resolved, as a WIN with
  \<open>pnl = size / 0.5 - size = size\<close>.
\<close>

theorem resolve_market_trades_zero_entry_price:
  "(\<exists>r. resolve_market_trades d mid winner now = Inr r) \<and>
   (distinct (map t_id (trades d)) \<and> t \<in> set (trades d) \<and> t_market_id t = mid \<and>
    t_resolved t \<noteq> Some True \<and> upper (or_str (t_side t) []) = winner \<and>
    (t_entry_price t = Some 0 \<or> t_entry_price t = None) \<longrightarrow>
      (\<exists>d' res. resolve_market_trades d mid winner now = Inr (d', res) \<and>
         get_trade d' (t_id t) =
           Some (t\<lparr>t_resolved := Some True, t_outcome := Some ''WIN'',
                   t_pnl := Some (or_real (t_size t) 0)\<rparr>)))"
proof (intro conjI impI)
  show "\<exists>r. resolve_market_trades d mid winner now = Inr r"
    by (rule resolve_market_trades_total)
next
  assume A: "distinct (map t_id (trades d)) \<and> t \<in> set (trades d) \<and> t_market_id t = mid \<and>
    t_resolved t \<noteq> Some True \<and> upper (or_str (t_side t) []) = winner \<and>
    (t_entry_price t = Some 0 \<or> t_entry_price t = None)"
  then obtain d' res where R: "resolve_market_trades d mid winner now = Inr (d', res)"
    and G: "get_trade d' (t_id t) = Some (settled_row winner t)"
    using resolve_market_trades_row[of d t mid winner now] by blast
  have "settled_row winner t = t\<lparr>t_resolved := Some True, t_outcome := Some ''WIN'',
                   t_pnl := Some (or_real (t_size t) 0)\<rparr>"
    using A by (auto simp: settled_row_def Let_def or_real_def)
  with R G show "\<exists>d' res. resolve_market_trades d mid winner now = Inr (d', res) \<and>
         get_trade d' (t_id t) =
           Some (t\<lparr>t_resolved := Some True, t_outcome := Some ''WIN'',
                   t_pnl := Some (or_real (t_size t) 0)\<rparr>)" by simp
qed

lemmas ex_defs = position_yes_def position_new_def trade_yes_def trade_no_def fresh_whale_def
  open_market_def ledger_two_def ledger_odd_def
  trade_free_def ledger_zero_def settled_market_def ledger_settled_def trade_won_def ledger_won_def
lemmas run_defs = resolve_market_trades_def unresolved_trades_of_def resolve_step_def trade_pnl_def
  py_div_def update_trade_def track_whale_def zero_stats_def empty_results_def or_real_def or_str_def
  upper_def upper_char_def flush_whale_def mark_market_resolved_def or_int_def Let_def

text \<open>The examples of C1: a WIN with size 100 at 0.5 earns 100, a LOSS with size 100 loses 100.\<close>

theorem resolve_market_trades_outcome_pnl_witness:
  "\<exists>d' res. resolve_market_trades ledger_two ''0xabc'' ''YES'' 7 = Inr (d', res) \<and>
     get_trade d' 1 = Some (trade_yes\<lparr>t_resolved := Some True, t_outcome := Some ''WIN'', t_pnl := Some 100\<rparr>) \<and>
     get_trade d' 2 = Some (trade_no\<lparr>t_resolved := Some True, t_outcome := Some ''LOSS'', t_pnl := Some (- 100)\<rparr>)"
proof -
  have h: "distinct (map t_id (trades ledger_two))" by (simp add: ex_defs)
  have y: "trade_yes \<in> set (trades ledger_two)" "t_market_id trade_yes = ''0xabc''"
    "t_resolved trade_yes \<noteq> Some True" by (simp_all add: ex_defs)
  have n: "trade_no \<in> set (trades ledger_two)" "t_market_id trade_no = ''0xabc''"
    "t_resolved trade_no \<noteq> Some True" by (simp_all add: ex_defs)
  have uy: "upper (or_str (t_side trade_yes) []) = ''YES''"
    by (simp add: ex_defs or_str_def upper_def upper_char_def)
  have un: "upper (or_str (t_side trade_no) []) \<noteq> ''YES''"
    by (simp add: ex_defs or_str_def upper_def upper_char_def)
  have py: "t_entry_price trade_yes = Some 0.5 \<and> (0.5::real) > 0" by (simp add: ex_defs)
  from resolve_market_trades_outcome_pnl[OF h y, of "''YES''" 7] uy py
  obtain d' res where R: "resolve_market_trades ledger_two ''0xabc'' ''YES'' 7 = Inr (d', res)"
    and W: "get_trade d' (t_id trade_yes) =
             Some (trade_yes\<lparr>t_resolved := Some True, t_outcome := Some ''WIN'',
                     t_pnl := Some (or_real (t_size trade_yes) 0 / 0.5 - or_real (t_size trade_yes) 0)\<rparr>)"
    by blast
  from resolve_market_trades_outcome_pnl[OF h n, of "''YES''" 7] un R
  have L: "get_trade d' (t_id trade_no) =
          Some (trade_no\<lparr>t_resolved := Some True, t_outcome := Some ''LOSS'',
                  t_pnl := Some (- or_real (t_size trade_no) 0)\<rparr>)"
    by auto
  have "get_trade d' 1 = Some (trade_yes\<lparr>t_resolved := Some True, t_outcome := Some ''WIN'', t_pnl := Some 100\<rparr>)"
    using W by (simp add: ex_defs or_real_def)
  moreover have "get_trade d' 2 = Some (trade_no\<lparr>t_resolved := Some True, t_outcome := Some ''LOSS'', t_pnl := Some (- 100)\<rparr>)"
    using L by (simp add: ex_defs or_real_def)
  ultimately show ?thesis using R by blast
qed

text \<open>
  C1 as stated fails on two rows. A winning trade stored with entry price 0 gets
  \<open>pnl = 100\<close>, the value at the default price 0.5, which is not \<open>size / 0 - size\<close>; and a
  trade whose stored side \<open>yes\<close> is not the string \<open>YES\<close> is a WIN all the same, because the
  side is upper-cased before the comparison.
\<close>

theorem resolve_market_trades_outcome_pnl_counterexample:
  "map_sum id (trades \<circ> fst) (resolve_market_trades ledger_odd ''0xabc'' ''YES'' 7) =
     Inr [trade_yes\<lparr>t_entry_price := Some 0, t_resolved := Some True, t_outcome := Some ''WIN'', t_pnl := Some 100\<rparr>,
          trade_no\<lparr>t_side := Some ''yes'', t_resolved := Some True, t_outcome := Some ''WIN'', t_pnl := Some 100\<rparr>]"
  by (simp add: ex_defs run_defs)

text \<open>The theorem of C10 at a winning trade of size 250 stored with entry price 0.\<close>

theorem resolve_market_trades_zero_entry_price_witness:
  "\<exists>d' res. resolve_market_trades ledger_zero ''0xabc'' ''YES'' 7 = Inr (d', res) \<and>
     get_trade d' 1 =
       Some (trade_free\<lparr>t_resolved := Some True, t_outcome := Some ''WIN'', t_pnl := Some 250\<rparr>)"
proof -
  have h: "distinct (map t_id (trades ledger_zero)) \<and> trade_free \<in> set (trades ledger_zero) \<and>
      t_market_id trade_free = ''0xabc'' \<and> t_resolved trade_free \<noteq> Some True \<and>
      upper (or_str (t_side trade_free) []) = ''YES'' \<and>
      (t_entry_price trade_free = Some 0 \<or> t_entry_price trade_free = None)"
    by (simp add: ex_defs or_str_def upper_def upper_char_def)
  have "t_id trade_free = 1" "or_real (t_size trade_free) 0 = 250"
    by (simp_all add: ex_defs or_real_def)
  with resolve_market_trades_zero_entry_price[of ledger_zero "''0xabc''" "''YES''" 7 trade_free] h
  show ?thesis by simp
qed

text \<open>
  C10 as stated fails: the winning trade with entry price 0 is not left unresolved. It is
  marked resolved, a WIN, with the pnl of a trade entered at 0.5.
\<close>

theorem resolve_market_trades_zero_entry_price_counterexample:
  "map_sum id (trades \<circ> fst) (resolve_market_trades ledger_zero ''0xabc'' ''YES'' 7) =
     Inr [trade_free\<lparr>t_resolved := Some True, t_outcome := Some ''WIN'', t_pnl := Some 250\<rparr>]"
  by (simp add: ex_defs run_defs)

section \<open>The markets table under resolution\<close>

lemma markets_update_whale_stats: "markets (update_whale_stats d a w l) = markets d"
  by (cases "whales d a") (simp_all add: update_whale_stats_def)

lemma markets_bump_whale: "markets (fst (bump_whale d a won)) = markets d"
proof (cases "get_whale d a")
  case None
  then show ?thesis by (simp add: bump_whale_def)
next
  case (Some w)
  show ?thesis
  proof (cases won)
    case True
    then show ?thesis using Some
      by (cases "w_win_count w") (simp_all add: bump_whale_def the_num_def markets_update_whale_stats)
  next
    case False
    then show ?thesis using Some
      by (cases "w_loss_count w") (simp_all add: bump_whale_def the_num_def markets_update_whale_stats)
  qed
qed

lemma markets_resolve_trade: "markets (resolve_trade d i oc p) = markets d"
  by (simp add: resolve_trade_def)

lemma markets_by_market_step: "markets (fst (by_market_step r t d)) = markets d"
proof (cases "t_side t")
  case None
  then show ?thesis by (simp add: by_market_step_def)
next
  case (Some s)
  let ?won = "(upper s = ''YES'' \<and> r = ''YES'') \<or> (upper s = ''NO'' \<and> r = ''NO'')"
  show ?thesis
  proof (cases "market_pnl ?won (t_size t) (t_entry_price t)")
    case (Inl e)
    then show ?thesis using Some by (simp add: by_market_step_def Let_def)
  next
    case (Inr pnl)
    then show ?thesis using Some
      by (simp add: by_market_step_def Let_def markets_bump_whale markets_resolve_trade)
  qed
qed

lemma markets_by_market_loop: "markets (fst (by_market_loop r ts d)) = markets d"
proof (induction ts arbitrary: d)
  case Nil show ?case by simp
next
  case (Cons t ts)
  obtain d1 e where S: "by_market_step r t d = (d1, e)" by (cases "by_market_step r t d")
  then have M: "markets d1 = markets d" using markets_by_market_step[of r t d] by simp
  show ?case
  proof (cases e)
    case None
    then show ?thesis using S M Cons.IH[of d1] by simp
  next
    case (Some err)
    then show ?thesis using S M by simp
  qed
qed

lemma markets_resolve_trades_by_market:
  "markets (fst (resolve_trades_by_market d mid r)) = markets d"
proof -
  let ?ts = "filter (\<lambda>t. t_market_id t = mid \<and> t_resolved t = Some False) (trades d)"
  obtain d1 e where S: "by_market_loop r ?ts d = (d1, e)" by (cases "by_market_loop r ?ts d")
  then have "markets d1 = markets d" using markets_by_market_loop[of r ?ts d] by simp
  with S show ?thesis by (cases e) (simp_all add: resolve_trades_by_market_def)
qed

lemma markets_resolve_market:
  "markets (fst (resolve_market d mid r now)) = mark_market_resolved (markets d) mid r now"
proof -
  let ?d0 = "d\<lparr>markets := mark_market_resolved (markets d) mid r now\<rparr>"
  obtain d1 e where S: "resolve_trades_by_market ?d0 mid r = (d1, e)"
    by (cases "resolve_trades_by_market ?d0 mid r")
  then have "markets d1 = markets ?d0" using markets_resolve_trades_by_market[of ?d0 mid r] by simp
  with S show ?thesis by (cases e) (simp_all add: resolve_market_def)
qed

lemma mark_market_resolved_at:
  "ms mid = Some row \<Longrightarrow> mark_market_resolved ms mid r now mid =
     Some (row\<lparr>m_resolved := Some True, m_resolution := Some r, m_resolved_at := Some now\<rparr>)"
  by (simp add: mark_market_resolved_def)

lemma mark_market_resolved_other:
  "other \<noteq> mid \<Longrightarrow> mark_market_resolved ms mid r now other = ms other"
  by (cases "ms mid") (simp_all add: mark_market_resolved_def)

lemma markets_resolve_market_trades:
  "resolve_market_trades d mid winner now = Inr (d', res) \<Longrightarrow>
     markets d' = mark_market_resolved (markets d) mid winner now"
  by (cases "resolve_loop winner (unresolved_trades_of (trades d) mid) (trades d, empty_results)")
     (auto simp: resolve_market_trades_def)

lemma update_whale_stats_markets:
  "update_whale_stats (d\<lparr>markets := ms\<rparr>) a w l = (update_whale_stats d a w l)\<lparr>markets := ms\<rparr>"
  by (cases "whales d a") (simp_all add: update_whale_stats_def)

lemma bump_whale_markets:
  "bump_whale (d\<lparr>markets := ms\<rparr>) a won =
     ((fst (bump_whale d a won))\<lparr>markets := ms\<rparr>, snd (bump_whale d a won))"
proof (cases "get_whale d a")
  case None
  then show ?thesis by (simp add: bump_whale_def get_whale_def)
next
  case (Some w)
  then have G: "get_whale (d\<lparr>markets := ms\<rparr>) a = Some w" by (simp add: get_whale_def)
  show ?thesis
  proof (cases won)
    case True
    then show ?thesis using Some G
      by (cases "w_win_count w") (simp_all add: bump_whale_def the_num_def update_whale_stats_markets)
  next
    case False
    then show ?thesis using Some G
      by (cases "w_loss_count w") (simp_all add: bump_whale_def the_num_def update_whale_stats_markets)
  qed
qed

lemma resolve_trade_markets:
  "resolve_trade (d\<lparr>markets := ms\<rparr>) i oc p = (resolve_trade d i oc p)\<lparr>markets := ms\<rparr>"
  by (simp add: resolve_trade_def)

lemma by_market_step_markets:
  "by_market_step r t (d\<lparr>markets := ms\<rparr>) =
     ((fst (by_market_step r t d))\<lparr>markets := ms\<rparr>, snd (by_market_step r t d))"
proof (cases "t_side t")
  case None
  then show ?thesis by (simp add: by_market_step_def)
next
  case (Some s)
  let ?won = "(upper s = ''YES'' \<and> r = ''YES'') \<or> (upper s = ''NO'' \<and> r = ''NO'')"
  show ?thesis
  proof (cases "market_pnl ?won (t_size t) (t_entry_price t)")
    case (Inl e)
    then show ?thesis using Some by (simp add: by_market_step_def Let_def)
  next
    case (Inr pnl)
    then show ?thesis using Some
      by (simp add: by_market_step_def Let_def resolve_trade_markets bump_whale_markets)
  qed
qed

lemma by_market_loop_markets:
  "by_market_loop r ts (d\<lparr>markets := ms\<rparr>) =
     ((fst (by_market_loop r ts d))\<lparr>markets := ms\<rparr>, snd (by_market_loop r ts d))"
proof (induction ts arbitrary: d)
  case Nil show ?case by simp
next
  case (Cons t ts)
  obtain d1 e where S: "by_market_step r t d = (d1, e)" by (cases "by_market_step r t d")
  then have S': "by_market_step r t (d\<lparr>markets := ms\<rparr>) = (d1\<lparr>markets := ms\<rparr>, e)"
    by (simp add: by_market_step_markets)
  show ?case
  proof (cases e)
    case None
    then show ?thesis using S S' Cons.IH[of d1] by simp
  next
    case (Some err)
    then show ?thesis using S S' by simp
  qed
qed

lemma resolve_trades_by_market_markets:
  "resolve_trades_by_market (d\<lparr>markets := ms\<rparr>) mid r =
     ((fst (resolve_trades_by_market d mid r))\<lparr>markets := ms\<rparr>, snd (resolve_trades_by_market d mid r))"
proof -
  let ?ts = "filter (\<lambda>t. t_market_id t = mid \<and> t_resolved t = Some False) (trades d)"
  obtain d1 e where S: "by_market_loop r ?ts d = (d1, e)" by (cases "by_market_loop r ?ts d")
  then have S': "by_market_loop r ?ts (d\<lparr>markets := ms\<rparr>) = (d1\<lparr>markets := ms\<rparr>, e)"
    by (simp add: by_market_loop_markets)
  show ?thesis using S S' by (cases e) (simp_all add: resolve_trades_by_market_def)
qed

lemma resolve_market_by_trades:
  "resolve_market d mid r now =
     ((fst (resolve_trades_by_market d mid r))\<lparr>markets := mark_market_resolved (markets d) mid r now\<rparr>,
      case snd (resolve_trades_by_market d mid r) of Inl e \<Rightarrow> Some e | Inr n \<Rightarrow> None)"
proof -
  obtain d1 e where S: "resolve_trades_by_market d mid r = (d1, e)"
    by (cases "resolve_trades_by_market d mid r")
  show ?thesis using S
    by (cases e) (simp_all add: resolve_market_def resolve_trades_by_market_markets)
qed

lemma resolve_market_any_markets:
  "snd (resolve_market (d\<lparr>markets := ms\<rparr>) mid r now) = snd (resolve_market d mid r now)
   \<and> trades (fst (resolve_market (d\<lparr>markets := ms\<rparr>) mid r now)) = trades (fst (resolve_market d mid r now))
   \<and> whales (fst (resolve_market (d\<lparr>markets := ms\<rparr>) mid r now)) = whales (fst (resolve_market d mid r now))"
  by (simp add: resolve_market_by_trades resolve_trades_by_market_markets)

text \<open>
  Claim C2, as the code has it. Neither \<^verbatim>\<open>Database.resolve_market\<close> nor
  \<^verbatim>\<open>ResolutionChecker.resolve_market_trades\<close> looks at the row before writing it: on an
  existing market row both set \<open>resolved\<close> and store the outcome they are given, whatever
  the row held before. Neither reports an error on account of the earlier outcome:
  \<^verbatim>\<open>resolve_market_trades\<close> returns without an error, and the error of
  \<^verbatim>\<open>Database.resolve_market\<close>, if any, is the same whatever the markets table \<open>ms\<close> held.
\<close>

theorem resolve_market_overwrites:
  assumes "get_market d mid = Some row"
  shows "get_market (fst (resolve_market d mid resolution now)) mid =
           Some (row\<lparr>m_resolved := Some True, m_resolution := Some resolution,
                     m_resolved_at := Some now\<rparr>)
       \<and> snd (resolve_market (d\<lparr>markets := ms\<rparr>) mid resolution now) =
           snd (resolve_market d mid resolution now)
       \<and> (\<exists>d' res. resolve_market_trades d mid resolution now = Inr (d', res) \<and>
             get_market d' mid =
               Some (row\<lparr>m_resolved := Some True, m_resolution := Some resolution,
                         m_resolved_at := Some now\<rparr>))"
proof (intro conjI)
  show "get_market (fst (resolve_market d mid resolution now)) mid =
           Some (row\<lparr>m_resolved := Some True, m_resolution := Some resolution,
                     m_resolved_at := Some now\<rparr>)"
    using assms by (simp add: get_market_def markets_resolve_market mark_market_resolved_at)
next
  show "snd (resolve_market (d\<lparr>markets := ms\<rparr>) mid resolution now) =
           snd (resolve_market d mid resolution now)"
    by (simp add: resolve_market_any_markets)
next
  obtain r where R: "resolve_market_trades d mid resolution now = Inr r"
    using resolve_market_trades_total by blast
  obtain d' res where r: "r = (d', res)" by (cases r)
  have "markets d' = mark_market_resolved (markets d) mid resolution now"
    using markets_resolve_market_trades R r by blast
  then have "get_market d' mid = Some (row\<lparr>m_resolved := Some True, m_resolution := Some resolution,
                         m_resolved_at := Some now\<rparr>)"
    using assms by (simp add: get_market_def mark_market_resolved_at)
  with R r show "\<exists>d' res. resolve_market_trades d mid resolution now = Inr (d', res) \<and>
             get_market d' mid =
               Some (row\<lparr>m_resolved := Some True, m_resolution := Some resolution,
                         m_resolved_at := Some now\<rparr>)" by blast
qed

text \<open>The theorem of C2 at a market already resolved YES, compared with the same market still open.\<close>

theorem resolve_market_overwrites_witness:
  "get_market (fst (resolve_market ledger_settled ''0xabc'' ''NO'' 9)) ''0xabc'' =
     Some (settled_market\<lparr>m_resolved := Some True, m_resolution := Some ''NO'', m_resolved_at := Some 9\<rparr>)
   \<and> snd (resolve_market ledger_settled ''0xabc'' ''NO'' 9) =
       snd (resolve_market (ledger_settled\<lparr>markets := [''0xabc'' \<mapsto> open_market]\<rparr>) ''0xabc'' ''NO'' 9)
   \<and> (\<exists>d' res. resolve_market_trades ledger_settled ''0xabc'' ''NO'' 9 = Inr (d', res) \<and>
         get_market d' ''0xabc'' =
           Some (settled_market\<lparr>m_resolved := Some True, m_resolution := Some ''NO'', m_resolved_at := Some 9\<rparr>))"
proof -
  have "get_market ledger_settled ''0xabc'' = Some settled_market"
    by (simp add: ledger_settled_def get_market_def)
  from resolve_market_overwrites[OF this, of "''NO''" 9 "[''0xabc'' \<mapsto> open_market]"]
  show ?thesis by simp
qed

text \<open>
  C2 as stated fails: a market resolved YES, resolved again with NO, ends with the stored
  outcome NO, and the call reports no error.
\<close>

theorem resolve_market_overwrites_counterexample:
  "m_resolved settled_market = Some True \<and> m_resolution settled_market = Some ''YES'' \<and>
   get_market ledger_settled ''0xabc'' = Some settled_market \<and>
   snd (resolve_market ledger_settled ''0xabc'' ''NO'' 9) = None \<and>
   map_option m_resolution (get_market (fst (resolve_market ledger_settled ''0xabc'' ''NO'' 9)) ''0xabc'') =
     Some (Some ''NO'')"
  by (simp add: ledger_settled_def settled_market_def resolve_market_def
      resolve_trades_by_market_def mark_market_resolved_def get_market_def)

section \<open>The whale counters after a resolution\<close>

text \<open>
  The per-whale tally of \<^verbatim>\<open>whale_updates\<close> gains one win or one loss per loop iteration,
  and the flush adds the tally of a whale to its row once.
\<close>

lemma tally_track_whale:
  "tally (track_whale b won pnl ups) a =
     (if a = b then (fst (tally ups a) + (if won then 1 else 0),
                     snd (tally ups a) + (if won then 0 else 1))
      else tally ups a)"
  by (simp add: tally_def track_whale_def Let_def update_conv' zero_stats_def split: option.splits)

lemma dom_track_whale:
  "map_of (track_whale b won pnl ups) a = None \<longleftrightarrow> a \<noteq> b \<and> map_of ups a = None"
  by (simp add: track_whale_def Let_def update_conv')

lemma distinct_track_whale:
  "distinct (map fst ups) \<Longrightarrow> distinct (map fst (track_whale b won pnl ups))"
  by (simp add: track_whale_def Let_def distinct_update)

lemma resolve_step_updates:
  "\<exists>tbl' pnl. resolve_step winner t (tbl, res) =
     Inr (tbl', res\<lparr>r_trades_resolved := r_trades_resolved res + 1,
                    r_total_pnl := r_total_pnl res + pnl,
                    r_wins := (if trade_won_by winner t then r_wins res + 1 else r_wins res),
                    r_losses := (if trade_won_by winner t then r_losses res else r_losses res + 1),
                    r_whale_updates := track_whale (t_whale_address t) (trade_won_by winner t) pnl
                                         (r_whale_updates res)\<rparr>)"
proof -
  let ?pnl = "(if trade_won_by winner t
               then (if or_real (t_entry_price t) 0.5 > 0
                     then or_real (t_size t) 0 / or_real (t_entry_price t) 0.5 else 0)
                    - or_real (t_size t) 0
               else - or_real (t_size t) 0)"
  have "resolve_step winner t (tbl, res) =
     Inr (update_trade (t_id t) (if trade_won_by winner t then ''WIN'' else ''LOSS'') ?pnl tbl,
          res\<lparr>r_trades_resolved := r_trades_resolved res + 1,
                    r_total_pnl := r_total_pnl res + ?pnl,
                    r_wins := (if trade_won_by winner t then r_wins res + 1 else r_wins res),
                    r_losses := (if trade_won_by winner t then r_losses res else r_losses res + 1),
                    r_whale_updates := track_whale (t_whale_address t) (trade_won_by winner t) ?pnl
                                         (r_whale_updates res)\<rparr>)"
    unfolding resolve_step_def trade_pnl_total trade_won_by_def Let_def by simp
  then show ?thesis by blast
qed

lemma resolve_loop_updates:
  assumes "resolve_loop winner ts (tbl, res) = Inr (tbl', res')"
  shows "tally (r_whale_updates res') a =
           (fst (tally (r_whale_updates res) a)
              + length (filter (\<lambda>t. t_whale_address t = a \<and> trade_won_by winner t) ts),
            snd (tally (r_whale_updates res) a)
              + length (filter (\<lambda>t. t_whale_address t = a \<and> \<not> trade_won_by winner t) ts))
       \<and> (map_of (r_whale_updates res') a = None \<longleftrightarrow>
            map_of (r_whale_updates res) a = None \<and> filter (\<lambda>t. t_whale_address t = a) ts = [])
       \<and> (distinct (map fst (r_whale_updates res)) \<longrightarrow> distinct (map fst (r_whale_updates res')))"
  using assms
proof (induction ts arbitrary: tbl res)
  case Nil
  then show ?case by simp
next
  case (Cons t ts)
  obtain tbl1 pnl where S: "resolve_step winner t (tbl, res) =
     Inr (tbl1, res\<lparr>r_trades_resolved := r_trades_resolved res + 1,
                    r_total_pnl := r_total_pnl res + pnl,
                    r_wins := (if trade_won_by winner t then r_wins res + 1 else r_wins res),
                    r_losses := (if trade_won_by winner t then r_losses res else r_losses res + 1),
                    r_whale_updates := track_whale (t_whale_address t) (trade_won_by winner t) pnl
                                         (r_whale_updates res)\<rparr>)"
    using resolve_step_updates[of winner t tbl res] by blast
  let ?res1 = "res\<lparr>r_trades_resolved := r_trades_resolved res + 1,
                    r_total_pnl := r_total_pnl res + pnl,
                    r_wins := (if trade_won_by winner t then r_wins res + 1 else r_wins res),
                    r_losses := (if trade_won_by winner t then r_losses res else r_losses res + 1),
                    r_whale_updates := track_whale (t_whale_address t) (trade_won_by winner t) pnl
                                         (r_whale_updates res)\<rparr>"
  have L: "resolve_loop winner ts (tbl1, ?res1) = Inr (tbl', res')"
    using Cons.prems S by simp
  have U: "r_whale_updates ?res1 =
             track_whale (t_whale_address t) (trade_won_by winner t) pnl (r_whale_updates res)"
    by simp
  note IH = Cons.IH[OF L, unfolded U]
  show ?case
  proof (intro conjI)
    show "tally (r_whale_updates res') a =
           (fst (tally (r_whale_updates res) a)
              + length (filter (\<lambda>t. t_whale_address t = a \<and> trade_won_by winner t) (t # ts)),
            snd (tally (r_whale_updates res) a)
              + length (filter (\<lambda>t. t_whale_address t = a \<and> \<not> trade_won_by winner t) (t # ts)))"
      using IH by (simp add: tally_track_whale)
    show "map_of (r_whale_updates res') a = None \<longleftrightarrow>
            map_of (r_whale_updates res) a = None \<and> filter (\<lambda>t. t_whale_address t = a) (t # ts) = []"
      using IH by (auto simp: dom_track_whale)
    show "distinct (map fst (r_whale_updates res)) \<longrightarrow> distinct (map fst (r_whale_updates res'))"
      using IH distinct_track_whale by blast
  qed
qed

lemma flush_whale_apply:
  "flush_whale ws (k, st) a =
     (if a = k
      then (case ws k of None \<Rightarrow> None
            | Some row \<Rightarrow>
                Some (row\<lparr>w_win_count := Some (or_int (w_win_count row) 0 + int (ws_wins st)),
                           w_loss_count := Some (or_int (w_loss_count row) 0 + int (ws_losses st))\<rparr>))
      else ws a)"
  by (cases "ws k") (simp_all add: flush_whale_def)

lemma foldl_flush_whale:
  assumes "distinct (map fst ups)"
  shows "foldl flush_whale ws ups a =
           (case map_of ups a of None \<Rightarrow> ws a | Some st \<Rightarrow> flush_whale ws (a, st) a)"
  using assms
proof (induction ups arbitrary: ws)
  case Nil
  show ?case by simp
next
  case (Cons u ups)
  obtain k st where u: "u = (k, st)" by (cases u)
  have d: "distinct (map fst ups)" and nk: "k \<notin> fst ` set ups" using Cons.prems u by auto
  note IH = Cons.IH[OF d, of "flush_whale ws (k, st)"]
  show ?case
  proof (cases "a = k")
    case True
    then have "map_of ups a = None" using nk by (simp add: map_of_eq_None_iff)
    then show ?thesis using IH True u by simp
  next
    case False
    have other: "flush_whale ws (k, st) a = ws a"
      using False by (simp add: flush_whale_apply)
    have same: "flush_whale (flush_whale ws (k, st)) (a, st') a = flush_whale ws (a, st') a" for st'
      using False by (simp add: flush_whale_apply)
    have "foldl flush_whale ws (u # ups) a = foldl flush_whale (flush_whale ws (k, st)) ups a"
      using u by simp
    also have "\<dots> = (case map_of ups a of None \<Rightarrow> ws a
                        | Some st' \<Rightarrow> flush_whale ws (a, st') a)"
      unfolding IH other same ..
    also have "\<dots> = (case map_of (u # ups) a of None \<Rightarrow> ws a
                        | Some st' \<Rightarrow> flush_whale ws (a, st') a)"
      using False u by simp
    finally show ?thesis .
  qed
qed

text \<open>
  After \<^verbatim>\<open>resolve_market_trades\<close> the counters of a tracked whale have grown by the number
  of its unresolved positions on the market, split into winners and losers.
\<close>

lemma resolve_market_trades_counters:
  assumes "resolve_market_trades d mid winner now = Inr (d', res)" and "whales d a = Some row"
  shows "whales d' a =
     (if filter (\<lambda>t. t_whale_address t = a) (unresolved_trades_of (trades d) mid) = []
      then Some row
      else Some (row\<lparr>w_win_count := Some (or_int (w_win_count row) 0
                        + int (length (filter (\<lambda>t. t_whale_address t = a \<and> trade_won_by winner t)
                                 (unresolved_trades_of (trades d) mid)))),
                     w_loss_count := Some (or_int (w_loss_count row) 0
                        + int (length (filter (\<lambda>t. t_whale_address t = a \<and> \<not> trade_won_by winner t)
                                 (unresolved_trades_of (trades d) mid))))\<rparr>))"
proof -
  let ?ts = "unresolved_trades_of (trades d) mid"
  from assms(1) obtain tbl' where L: "resolve_loop winner ?ts (trades d, empty_results) = Inr (tbl', res)"
    and W: "whales d' = foldl flush_whale (whales d) (r_whale_updates res)"
    by (auto simp: resolve_market_trades_def split: sum.splits)
  note U = resolve_loop_updates[OF L, of a]
  have e: "r_whale_updates empty_results = []" by (simp add: empty_results_def)
  have dist: "distinct (map fst (r_whale_updates res))" using U e by simp
  have F: "whales d' a = (case map_of (r_whale_updates res) a of None \<Rightarrow> whales d a
                          | Some st \<Rightarrow> flush_whale (whales d) (a, st) a)"
    unfolding W by (rule foldl_flush_whale[OF dist])
  show ?thesis
  proof (cases "filter (\<lambda>t. t_whale_address t = a) ?ts = []")
    case True
    then have "map_of (r_whale_updates res) a = None" using U e by simp
    then show ?thesis using F True assms(2) by simp
  next
    case False
    then obtain st where st: "map_of (r_whale_updates res) a = Some st" using U e by auto
    have "tally (r_whale_updates res) a = (ws_wins st, ws_losses st)" using st by (simp add: tally_def)
    then have c: "ws_wins st = length (filter (\<lambda>t. t_whale_address t = a \<and> trade_won_by winner t) ?ts)"
      "ws_losses st = length (filter (\<lambda>t. t_whale_address t = a \<and> \<not> trade_won_by winner t) ?ts)"
      using U e by (simp_all add: tally_def)
    show ?thesis using F st False assms(2) c by (simp add: flush_whale_apply)
  qed
qed

section \<open>Resolving twice\<close>

lemma settled_row_resolved: "t_resolved (settled_row winner r) = Some True"
  by (simp add: settled_row_def Let_def)

lemma settled_row_market: "t_market_id (settled_row winner r) = t_market_id r"
  by (simp add: settled_row_def Let_def)

lemma resolve_market_trades_twice_aux:
  assumes "distinct (map t_id (trades d))"
    and "resolve_market_trades d mid winner now = Inr (d', res)"
  shows "unresolved_trades_of (trades d') mid = []"
proof -
  have T: "trades d' = map (\<lambda>r. if t_market_id r = mid \<and> t_resolved r \<noteq> Some True
                            then settled_row winner r else r) (trades d)"
    using resolve_market_trades_rows[OF assms(1), of mid winner now] assms(2) by auto
  have "\<not> (t_market_id x = mid \<and> (t_resolved x = Some False \<or> t_resolved x = None))"
    if "x \<in> set (trades d')" for x
  proof -
    from that obtain r where "r \<in> set (trades d)"
      and x: "x = (if t_market_id r = mid \<and> t_resolved r \<noteq> Some True then settled_row winner r else r)"
      unfolding T by auto
    show ?thesis
    proof (cases "t_market_id r = mid \<and> t_resolved r \<noteq> Some True")
      case True
      then have "x = settled_row winner r" using x by simp
      then show ?thesis by (simp add: settled_row_resolved)
    next
      case False
      with x have "x = r" by presburger
      with False show ?thesis by auto
    qed
  qed
  then show ?thesis
    unfolding unresolved_trades_of_def filter_empty_conv by blast
qed

text \<open>
  Claim C3, as the code has it. Resolution of a market selects only its unresolved trades,
  so once \<^verbatim>\<open>resolve_market_trades\<close> has run on a market, a second run on that market, with
  any winner, resolves nothing: every trade row (outcome and pnl included) and every whale
  row (win and loss counters included) stays as it is. The first run adds to the counters
  of a tracked whale one win for each of its unresolved positions on the market that won
  and one loss for each that lost, and nothing else: each resolved position counts once.
\<close>

theorem resolve_market_trades_twice:
  assumes "distinct (map t_id (trades d))"
    and "resolve_market_trades d mid winner now = Inr (d', res)"
  shows "(\<exists>d'' res'. resolve_market_trades d' mid winner' now' = Inr (d'', res') \<and>
           trades d'' = trades d' \<and> whales d'' = whales d' \<and> res' = empty_results)
       \<and> (whales d a = Some row \<longrightarrow>
           whales d' a =
             (if filter (\<lambda>t. t_whale_address t = a) (unresolved_trades_of (trades d) mid) = []
              then Some row
              else Some (row\<lparr>w_win_count := Some (or_int (w_win_count row) 0
                          + int (length (filter (\<lambda>t. t_whale_address t = a \<and> trade_won_by winner t)
                                   (unresolved_trades_of (trades d) mid)))),
                        w_loss_count := Some (or_int (w_loss_count row) 0
                          + int (length (filter (\<lambda>t. t_whale_address t = a \<and> \<not> trade_won_by winner t)
                                   (unresolved_trades_of (trades d) mid))))\<rparr>)))"
proof
  show "\<exists>d'' res'. resolve_market_trades d' mid winner' now' = Inr (d'', res') \<and>
           trades d'' = trades d' \<and> whales d'' = whales d' \<and> res' = empty_results"
    using resolve_market_trades_twice_aux[OF assms]
    by (simp add: resolve_market_trades_def empty_results_def)
next
  show "whales d a = Some row \<longrightarrow>
           whales d' a =
             (if filter (\<lambda>t. t_whale_address t = a) (unresolved_trades_of (trades d) mid) = []
              then Some row
              else Some (row\<lparr>w_win_count := Some (or_int (w_win_count row) 0
                          + int (length (filter (\<lambda>t. t_whale_address t = a \<and> trade_won_by winner t)
                                   (unresolved_trades_of (trades d) mid)))),
                        w_loss_count := Some (or_int (w_loss_count row) 0
                          + int (length (filter (\<lambda>t. t_whale_address t = a \<and> \<not> trade_won_by winner t)
                                   (unresolved_trades_of (trades d) mid))))\<rparr>))"
    using resolve_market_trades_counters[OF assms(2)] by blast
qed

text \<open>The theorem of C3 on the two-trade ledger, resolved YES and then resolved again.\<close>

theorem resolve_market_trades_twice_witness:
  "\<exists>d' res d'' res'.
     resolve_market_trades ledger_two ''0xabc'' ''YES'' 7 = Inr (d', res) \<and>
     resolve_market_trades d' ''0xabc'' ''NO'' 8 = Inr (d'', res') \<and>
     trades d'' = trades d' \<and> whales d'' = whales d' \<and> res' = empty_results \<and>
     whales d' ''0xw1'' = Some (fresh_whale\<lparr>w_win_count := Some 1, w_loss_count := Some 0\<rparr>) \<and>
     whales d' ''0xw2'' = Some (fresh_whale\<lparr>w_win_count := Some 0, w_loss_count := Some 1\<rparr>)"
proof -
  have h: "distinct (map t_id (trades ledger_two))" by (simp add: ex_defs)
  obtain r where "resolve_market_trades ledger_two ''0xabc'' ''YES'' 7 = Inr r"
    using resolve_market_trades_total by blast
  then obtain d' res where R: "resolve_market_trades ledger_two ''0xabc'' ''YES'' 7 = Inr (d', res)"
    by (cases r) auto
  have w1: "whales ledger_two ''0xw1'' = Some fresh_whale"
    and w2: "whales ledger_two ''0xw2'' = Some fresh_whale"
    by (simp_all add: ex_defs)
  have u: "unresolved_trades_of (trades ledger_two) ''0xabc'' = [trade_yes, trade_no]"
    by (simp add: ex_defs unresolved_trades_of_def)
  have a: "t_whale_address trade_yes = ''0xw1''" "t_whale_address trade_no = ''0xw2''"
    "trade_won_by ''YES'' trade_yes" "\<not> trade_won_by ''YES'' trade_no"
    "or_int (w_win_count fresh_whale) 0 = 0" "or_int (w_loss_count fresh_whale) 0 = 0"
    by (simp_all add: ex_defs trade_won_by_def or_str_def or_int_def upper_def upper_char_def)
  from resolve_market_trades_twice[OF h R, of "''NO''" 8 "''0xw1''" fresh_whale] w1
  have t: "\<exists>d'' res'. resolve_market_trades d' ''0xabc'' ''NO'' 8 = Inr (d'', res') \<and>
           trades d'' = trades d' \<and> whales d'' = whales d' \<and> res' = empty_results"
    and c1: "whales d' ''0xw1'' = Some (fresh_whale\<lparr>w_win_count := Some 1, w_loss_count := Some 0\<rparr>)"
    by (simp_all add: u a)
  from resolve_market_trades_twice[OF h R, of "''NO''" 8 "''0xw2''" fresh_whale] w2
  have c2: "whales d' ''0xw2'' = Some (fresh_whale\<lparr>w_win_count := Some 0, w_loss_count := Some 1\<rparr>)"
    by (simp add: u a)
  from R t c1 c2 show ?thesis by blast
qed

text \<open>
  C3 as stated fails for \<^verbatim>\<open>Database.resolve_trade\<close>: on a trade already resolved as a WIN
  with pnl 100, a second call with LOSS and -100 replaces both columns.
\<close>

theorem resolve_trade_overwrites_counterexample:
  "get_trade ledger_won 1 = Some trade_won \<and> t_resolved trade_won = Some True \<and>
   t_outcome trade_won = Some ''WIN'' \<and> t_pnl trade_won = Some 100 \<and>
   get_trade (resolve_trade ledger_won 1 ''LOSS'' (- 100)) 1 =
     Some (trade_won\<lparr>t_outcome := Some ''LOSS'', t_pnl := Some (- 100)\<rparr>)"
  by (simp add: ex_defs get_trade_def resolve_trade_def update_trade_def)

section \<open>Recording positions\<close>

lemma trade_exists_key:
  "trade_exists d w m s \<longleftrightarrow> (w, m, Some s) \<in> set (map trade_key (trades d))"
  by (auto simp: trade_exists_def trade_key_def list_ex_iff)

lemma trades_add_market: "trades (fst (add_market d m q)) = trades d"
  by (cases "markets d m") (simp_all add: add_market_def)

lemma record_position_existing:
  "trade_exists d w (p_market_id pos) (p_side pos) \<Longrightarrow> record_position w now pos d = d"
  by (simp add: record_position_def)

lemma record_position_keys:
  assumes "distinct (map trade_key (trades d))"
  shows "distinct (map trade_key (trades (record_position w now pos d)))"
proof (cases "p_market_id pos = [] \<or> trade_exists d w (p_market_id pos) (p_side pos)")
  case True
  then show ?thesis using assms by (auto simp: record_position_def)
next
  case False
  then have new: "(w, p_market_id pos, Some (p_side pos)) \<notin> set (map trade_key (trades d))"
    by (simp add: trade_exists_key)
  have "map trade_key (trades (record_position w now pos d)) =
          map trade_key (trades d) @ [(w, p_market_id pos, Some (p_side pos))]"
    using False by (simp add: record_position_def add_trade_def trades_add_market trade_key_def)
  then show ?thesis using assms new by simp
qed

lemma check_whale_positions_keys:
  "distinct (map trade_key (trades d)) \<Longrightarrow>
     distinct (map trade_key (trades (check_whale_positions d w ps now)))"
  unfolding check_whale_positions_def
proof (induction ps arbitrary: d)
  case Nil then show ?case by simp
next
  case (Cons p ps)
  from Cons.IH[OF record_position_keys[OF Cons.prems, of w now p]] show ?case by simp
qed

text \<open>
  Claim C4, as the code has it. \<^verbatim>\<open>Database.add_trade\<close> never refuses a row; the
  duplicate check is made by its only caller. In \<^verbatim>\<open>check_whale_positions\<close> a position
  whose (whale, market, side) key is already stored is skipped and the ledger stays as it
  is, so a ledger with at most one trade per key keeps that property through any list of
  positions.
\<close>

theorem check_whale_positions_no_duplicate:
  "(trade_exists d w (p_market_id pos) (p_side pos) \<longrightarrow> record_position w now pos d = d) \<and>
   (distinct (map trade_key (trades d)) \<longrightarrow>
      distinct (map trade_key (trades (check_whale_positions d w ps now))))"
  using record_position_existing check_whale_positions_keys by blast

text \<open>The theorem of C4 on the two-trade ledger: one position already stored, one new
  position reported twice.\<close>

theorem check_whale_positions_no_duplicate_witness:
  "record_position ''0xw1'' 9 position_yes ledger_two = ledger_two \<and>
   distinct (map trade_key (trades (check_whale_positions ledger_two ''0xw1'' [position_yes, position_new, position_new] 9)))"
proof -
  have e: "trade_exists ledger_two ''0xw1'' (p_market_id position_yes) (p_side position_yes)"
    by (simp add: trade_exists_def ex_defs)
  have k: "distinct (map trade_key (trades ledger_two))"
    by (simp add: ex_defs trade_key_def)
  from check_whale_positions_no_duplicate[of ledger_two "''0xw1''" position_yes 9
      "[position_yes, position_new, position_new]"] e k
  show ?thesis by blast
qed

text \<open>
  C4 as stated fails: \<^verbatim>\<open>add_trade\<close> on a key that \<^verbatim>\<open>trade_exists\<close> reports as present
  stores a second trade with the same key and returns its new id.
\<close>

theorem add_trade_duplicate_counterexample:
  "trade_exists ledger_two ''0xw1'' ''0xabc'' ''YES'' \<and>
   map trade_key (trades (fst (add_trade ledger_two ''0xw1'' ''0xabc'' ''Q'' ''YES'' 7000 0.4 9))) =
     [(''0xw1'', ''0xabc'', Some ''YES''), (''0xw2'', ''0xabc'', Some ''NO''),
      (''0xw1'', ''0xabc'', Some ''YES'')] \<and>
   snd (add_trade ledger_two ''0xw1'' ''0xabc'' ''Q'' ''YES'' 7000 0.4 9) = 3"
  by (simp add: trade_exists_def add_trade_def trade_key_def ex_defs)

section \<open>The oracle client\<close>

lemma dict_get_token:
  "dict_get (token_json t) ''winner'' d = Inr (JBool (tk_winner t))"
  "dict_get (token_json t) ''outcome'' d = Inr (JStr (tk_outcome t))"
  "dict_get (token_json t) ''price'' d = Inr (JNum (tk_price t))"
  by (simp_all add: token_json_def)

lemma winner_by_flag_tokens:
  "winner_by_flag (map token_json toks) =
     Inr (map_option (\<lambda>t. upper (tk_outcome t)) (find (\<lambda>t. tk_winner t \<and> yes_no t) toks))"
proof (induction toks)
  case Nil
  show ?case by simp
next
  case (Cons a toks)
  show ?case
  proof (cases "tk_winner a \<and> yes_no a")
    case True
    then show ?thesis by (simp add: dict_get_token and_then_def yes_no_def)
  next
    case False
    then show ?thesis using Cons.IH by (auto simp: dict_get_token and_then_def yes_no_def)
  qed
qed

lemma winner_by_price_tokens:
  "winner_by_price parse (map token_json toks) =
     Inr (map_option (\<lambda>t. upper (tk_outcome t)) (find (\<lambda>t. tk_price t > 0.99 \<and> yes_no t) toks))"
proof (induction toks)
  case Nil
  show ?case by simp
next
  case (Cons a toks)
  show ?case
  proof (cases "tk_price a > 0.99 \<and> yes_no a")
    case True
    then show ?thesis by (simp add: dict_get_token and_then_def yes_no_def)
  next
    case False
    then show ?thesis using Cons.IH by (auto simp: dict_get_token and_then_def yes_no_def)
  qed
qed

text \<open>
  Claim C5, as the code has it. On a well-formed response for a market: if the market is
  not closed the result is "not resolved"; otherwise the winner is the outcome of the first
  token with the winner flag set and a YES/NO outcome; if there is none, the outcome of the
  first YES/NO token whose price is strictly greater than 0.99; if there is none either,
  the result is "not resolved".
\<close>

theorem check_market_resolution_two_tiers:
  "check_market_resolution parse market_id
       (Response 200 (Some (market_json is_closed question toks))) now =
     (if \<not> is_closed then None
      else case find (\<lambda>t. tk_winner t \<and> yes_no t) toks of
             Some t \<Rightarrow> Some \<lparr>rs_market_id = market_id, rs_question = JStr question,
                             rs_winner = upper (tk_outcome t), rs_resolved_at = now\<rparr>
           | None \<Rightarrow>
               (case find (\<lambda>t. tk_price t > 0.99 \<and> yes_no t) toks of
                  Some t \<Rightarrow> Some \<lparr>rs_market_id = market_id, rs_question = JStr question,
                                  rs_winner = upper (tk_outcome t), rs_resolved_at = now\<rparr>
                | None \<Rightarrow> None))"
proof (cases is_closed)
  case False
  then show ?thesis
    by (simp add: check_market_resolution_def check_body_def market_json_def and_then_def)
next
  case True
  show ?thesis
  proof (cases "find (\<lambda>t. tk_winner t \<and> yes_no t) toks")
    case (Some t)
    then show ?thesis using True
      by (simp add: check_market_resolution_def check_body_def market_json_def and_then_def
          winner_by_flag_tokens)
  next
    case None
    show ?thesis
    proof (cases toks)
      case Nil
      then show ?thesis using True
        by (simp add: check_market_resolution_def check_body_def market_json_def and_then_def)
    next
      case (Cons a as)
      then have ne: "map token_json toks \<noteq> []" by simp
      show ?thesis
      proof (cases "find (\<lambda>t. tk_price t > 0.99 \<and> yes_no t) toks")
        case None2: None
        then show ?thesis using True None ne
          by (simp add: check_market_resolution_def check_body_def market_json_def and_then_def
              winner_by_flag_tokens winner_by_price_tokens del: list.map)
      next
        case (Some t)
        then show ?thesis using True None ne
          by (simp add: check_market_resolution_def check_body_def market_json_def and_then_def
              winner_by_flag_tokens winner_by_price_tokens del: list.map)
      qed
    qed
  qed
qed

lemmas token_defs = token_yes_99_def token_no_01_def token_yes_priced_def token_no_flagged_def
  yes_no_def upper_def upper_char_def

text \<open>C5 on three responses: the flag beats the price, the price decides without a flag, an
  open market is not resolved.\<close>

theorem check_market_resolution_two_tiers_witness:
  "check_market_resolution no_parse ''0xabc''
       (Response 200 (Some (market_json True ''Q'' [token_yes_priced, token_no_flagged]))) 7 =
     Some \<lparr>rs_market_id = ''0xabc'', rs_question = JStr ''Q'', rs_winner = ''NO'',
           rs_resolved_at = 7\<rparr>
   \<and> check_market_resolution no_parse ''0xabc''
       (Response 200 (Some (market_json True ''Q'' [token_yes_priced, token_no_01]))) 7 =
     Some \<lparr>rs_market_id = ''0xabc'', rs_question = JStr ''Q'', rs_winner = ''YES'',
           rs_resolved_at = 7\<rparr>
   \<and> check_market_resolution no_parse ''0xabc''
       (Response 200 (Some (market_json False ''Q'' [token_yes_priced, token_no_flagged]))) 7 = None"
  using check_market_resolution_two_tiers[of no_parse "''0xabc''" True "''Q''"
          "[token_yes_priced, token_no_flagged]" 7]
        check_market_resolution_two_tiers[of no_parse "''0xabc''" True "''Q''"
          "[token_yes_priced, token_no_01]" 7]
        check_market_resolution_two_tiers[of no_parse "''0xabc''" False "''Q''"
          "[token_yes_priced, token_no_flagged]" 7]
  by (simp add: token_defs)

text \<open>
  C5 as stated fails: a closed market whose YES token has price exactly 0.99 and no winner
  flag is reported as not resolved, since the test is \<open>price > 0.99\<close>.
\<close>

theorem check_market_resolution_two_tiers_counterexample:
  "tk_price token_yes_99 \<ge> 0.99 \<and> upper (tk_outcome token_yes_99) = ''YES'' \<and>
   check_market_resolution no_parse ''0xabc''
       (Response 200 (Some (market_json True ''Q'' [token_yes_99, token_no_01]))) 7 = None"
  by (simp add: check_market_resolution_def check_body_def market_json_def token_json_def
      and_then_def token_defs)

text \<open>
  Claim C6. \<^verbatim>\<open>check_market_resolution\<close> always returns: an exception of the request
  (a timeout among them), a status other than 200, a body that is not JSON, an empty
  body, and any exception raised while the body is read all give \<open>None\<close>.
\<close>

theorem check_market_resolution_never_raises:
  "check_market_resolution parse market_id (Raised e) now = None
   \<and> (status \<noteq> 200 \<longrightarrow>
        check_market_resolution parse market_id (Response status body) now = None)
   \<and> check_market_resolution parse market_id (Response 200 None) now = None
   \<and> (\<not> truthy data \<longrightarrow>
        check_market_resolution parse market_id (Response 200 (Some data)) now = None)
   \<and> (check_body parse market_id resp now = Inl e' \<longrightarrow>
        check_market_resolution parse market_id resp now = None)"
  by (simp add: check_market_resolution_def check_body_def)

text \<open>C6 at a timeout, a 503, an unparsable body, a null body and a body whose \<open>tokens\<close>
  member is a number.\<close>

theorem check_market_resolution_never_raises_witness:
  "check_market_resolution no_parse ''0xabc'' (Raised TimeoutError) 7 = None
   \<and> check_market_resolution no_parse ''0xabc'' (Response 503 (Some broken_market)) 7 = None
   \<and> check_market_resolution no_parse ''0xabc'' (Response 200 None) 7 = None
   \<and> check_market_resolution no_parse ''0xabc'' (Response 200 (Some JNull)) 7 = None
   \<and> check_body no_parse ''0xabc'' (Response 200 (Some broken_market)) 7 = Inl TypeError
   \<and> check_market_resolution no_parse ''0xabc'' (Response 200 (Some broken_market)) 7 = None"
proof -
  have b: "check_body no_parse ''0xabc'' (Response 200 (Some broken_market)) 7 = Inl TypeError"
    by (simp add: check_body_def broken_market_def and_then_def)
  have s: "(503::int) \<noteq> 200" by simp
  have n: "\<not> truthy JNull" by simp
  from check_market_resolution_never_raises[of no_parse "''0xabc''" TimeoutError 7 503
      "Some broken_market" JNull "Response 200 (Some broken_market)" TypeError] b s n
  show ?thesis by blast
qed

section \<open>The edge filter\<close>





















section \<open>Consensus groups\<close>


















section \<open>Ranking\<close>
















section \<open>The ledger invariant\<close>

text \<open>
  The trade ids stay distinct and below the next id: every operation of the tracker and of
  the resolution checker keeps the ledger well formed.
\<close>

lemma wf_db_add_trade:
  assumes "wf_db d"
  shows "wf_db (fst (add_trade d w m q s sz ep now))"
proof -
  have "\<forall>t \<in> set (trades d). t_id t < next_trade_id d"
    using assms by (simp add: wf_db_def list_all_iff)
  then have "next_trade_id d \<notin> t_id ` set (trades d)" by auto
  then show ?thesis
    using assms by (auto simp: wf_db_def add_trade_def list_all_iff less_Suc_eq)
qed

lemma wf_db_record_position: "wf_db d \<Longrightarrow> wf_db (record_position w now pos d)"
proof -
  assume w: "wf_db d"
  have m: "wf_db (fst (add_market d k q))" for k q
    using w by (cases "markets d k") (simp_all add: add_market_def wf_db_def)
  show ?thesis
    using w wf_db_add_trade[OF m] by (simp add: record_position_def)
qed

lemma wf_db_check_whale_positions:
  "wf_db d \<Longrightarrow> wf_db (check_whale_positions d w ps now)"
  unfolding check_whale_positions_def
  by (induction ps arbitrary: d) (simp_all add: wf_db_record_position)

lemma wf_db_resolve_market_trades:
  assumes "wf_db d" and "resolve_market_trades d mid winner now = Inr (d', res)"
  shows "wf_db d'"
proof -
  have d: "distinct (map t_id (trades d))" using assms(1) by (simp add: wf_db_def)
  from resolve_market_trades_rows[OF d, of mid winner now] assms(2)
  have T: "trades d' = map (\<lambda>r. if t_market_id r = mid \<and> t_resolved r \<noteq> Some True
                            then settled_row winner r else r) (trades d)" by auto
  have N: "next_trade_id d' = next_trade_id d"
    using assms(2) by (auto simp: resolve_market_trades_def split: sum.splits)
  have I: "map t_id (trades d') = map t_id (trades d)"
    unfolding T by (simp add: o_def if_distrib cong: if_cong)
  have "list_all (\<lambda>i. i < next_trade_id d) (map t_id (trades d))"
    using assms(1) by (simp add: wf_db_def list_all_iff)
  then have "list_all (\<lambda>i. i < next_trade_id d') (map t_id (trades d'))"
    by (simp only: I N)
  then have B: "\<forall>t \<in> set (trades d'). t_id t < next_trade_id d'"
    by (simp add: list_all_iff)
  have D: "distinct (map t_id (trades d'))" using d by (simp only: I)
  show ?thesis using B D by (simp add: wf_db_def list_all_iff)
qed

text \<open>
  \<^verbatim>\<open>Database.resolve_market\<close> pays \<open>size * (1 - entry_price)\<close> on a win and
  \<open>- size * entry_price\<close> on a loss: on the two positions of 100 at 0.5 this is 50 and -50.
\<close>

lemma resolve_market_pnl_example:
  "map t_pnl (trades (fst (resolve_market ledger_two ''0xabc'' ''YES'' 7))) = [Some 50, Some (- 50)]
   \<and> map t_outcome (trades (fst (resolve_market ledger_two ''0xabc'' ''YES'' 7))) =
       [Some ''WIN'', Some ''LOSS'']
   \<and> snd (resolve_market ledger_two ''0xabc'' ''YES'' 7) = None"
  by (simp add: ex_defs resolve_market_def resolve_trades_by_market_def by_market_step_def
      market_pnl_def the_num_def bump_whale_def get_whale_def update_whale_stats_def
      resolve_trade_def update_trade_def mark_market_resolved_def upper_def upper_char_def Let_def)

end
